theory Spec2Isabelle
  imports Main
begin

section \<open>Data model\<close>

text \<open>
  The verified file is \<^verbatim>\<open>server/lib/PassportSetup.js\<close>: the three Passport verify callbacks
  (local, Google, GitHub) and the session callbacks \<^verbatim>\<open>serializeUser\<close> and
  \<^verbatim>\<open>deserializeUser\<close>. A JavaScript value that may be \<^verbatim>\<open>undefined\<close> or \<^verbatim>\<open>null\<close> is an
  \<open>option\<close>; a thrown value is an \<open>exn\<close>.
\<close>

type_synonym objectId = nat

type_synonym exn = string

text \<open>
  The object literal handed to \<^verbatim>\<open>User.create\<close>: the fields of a user document other than
  its identifier. A field the literal does not mention is \<open>None\<close>.
\<close>

record user_fields =
  name :: "string option"
  email :: "string option"
  password :: "string option"
  googleId :: "string option"
  githubId :: "string option"

text \<open>A stored user document: the fields and the internal identifier read as \<^verbatim>\<open>user.id\<close>.\<close>

record user = user_fields +
  uid :: objectId

text \<open>
  The provider profile, with the attributes the callbacks read: \<^verbatim>\<open>profile.id\<close>,
  \<^verbatim>\<open>profile.displayName\<close>, \<^verbatim>\<open>profile._json.name\<close> and \<^verbatim>\<open>profile._json.email\<close>.
\<close>

record raw_json =
  json_name :: "string option"
  json_email :: "string option"

record profile =
  profile_id :: string
  displayName :: "string option"
  json :: raw_json

datatype provider = Google | GitHub

section \<open>The user-record store\<close>

text \<open>The filter object of \<^verbatim>\<open>User.findOne\<close>: the callbacks use three shapes.\<close>

datatype query = ByEmail string | ByGoogleId string | ByGithubId string

fun matches :: "query \<Rightarrow> user \<Rightarrow> bool" where
  "matches (ByEmail e) u = (email u = Some e)"
| "matches (ByGoogleId g) u = (googleId u = Some g)"
| "matches (ByGithubId g) u = (githubId u = Some g)"

datatype request = FindOne query | FindById objectId | Create user_fields

text \<open>
  The collaborators of the callbacks that are not in the file: the behaviour of the store
  when it is unavailable, the credential verifier \<^verbatim>\<open>user.verifyPassword\<close> and the generator
  \<^verbatim>\<open>User.prototype.generateRandomPassword\<close>. They are parameters of every callback.
  \<^item> \<open>outage\<close> tells, for the current documents and a request, whether the store throws
    and what it throws (\<open>None\<close>: the request is served);
  \<^item> \<open>verifyPassword\<close> is awaited inside the \<^verbatim>\<open>try\<close> block, so it may throw as well;
    section 4.1 of the specification gives it no side effect;
  \<^item> \<open>generateRandomPassword\<close> is the value the generator yields at this call.
\<close>

record env =
  outage :: "user list \<Rightarrow> request \<Rightarrow> exn option"
  verifyPassword :: "user \<Rightarrow> string \<Rightarrow> exn + bool"
  generateRandomPassword :: string

text \<open>
  Modelled from the spec: the User-Record Store of section 6 (the Mongoose model
  \<^verbatim>\<open>models/user.model.js\<close> is not among the sources). The store is the list of its
  documents in insertion order. \<open>findOne\<close> and \<open>findById\<close> return the first matching
  document or nothing and leave the store as it is; \<open>create\<close> adds one document made of
  the given fields under an identifier no document has. Each operation returns the store
  with its answer, so that a caller's effect on the store can be read off.
\<close>

definition findOne :: "env \<Rightarrow> query \<Rightarrow> user list \<Rightarrow> (exn + user option) \<times> user list" where
  "findOne ev q s =
     (case outage ev s (FindOne q) of
        Some err \<Rightarrow> (Inl err, s)
      | None \<Rightarrow> (Inr (find (matches q) s), s))"

definition findById :: "env \<Rightarrow> objectId \<Rightarrow> user list \<Rightarrow> (exn + user option) \<times> user list" where
  "findById ev i s =
     (case outage ev s (FindById i) of
        Some err \<Rightarrow> (Inl err, s)
      | None \<Rightarrow> (Inr (find (\<lambda>u. uid u = i) s), s))"

definition fresh_id :: "user list \<Rightarrow> objectId" where
  "fresh_id s = Suc (fold max (map uid s) 0)"

definition new_document :: "user_fields \<Rightarrow> objectId \<Rightarrow> user" where
  "new_document f i =
     \<lparr>name = name f, email = email f, password = password f,
      googleId = googleId f, githubId = githubId f, uid = i\<rparr>"

definition create :: "env \<Rightarrow> user_fields \<Rightarrow> user list \<Rightarrow> (exn + user) \<times> user list" where
  "create ev f s =
     (case outage ev s (Create f) of
        Some err \<Rightarrow> (Inl err, s)
      | None \<Rightarrow> (let u = new_document f (fresh_id s) in (Inr u, s @ [u])))"

section \<open>The verify callbacks\<close>

text \<open>
  What a verify callback hands to \<^verbatim>\<open>done\<close>:
  \<^verbatim>\<open>done(err)\<close> and \<^verbatim>\<open>done(error, false)\<close> are \<open>DoneError\<close>,
  \<^verbatim>\<open>done(null, false, { message })\<close> is \<open>DoneFail\<close>, \<^verbatim>\<open>done(null, user)\<close> is \<open>DoneUser\<close>.
\<close>

datatype done_result = DoneError exn | DoneFail string | DoneUser user

text \<open>The error kinds of the specification, as the callbacks report them.\<close>

definition UserNotFound :: done_result where
  "UserNotFound = DoneFail ''Incorrect email.''"

definition InvalidCredentials :: done_result where
  "InvalidCredentials = DoneFail ''Incorrect password.''"

definition StoreError :: "exn \<Rightarrow> done_result" where
  "StoreError err = DoneError err"

text \<open>The local strategy's callback (lines 36 to 50).\<close>

definition localVerify :: "env \<Rightarrow> string \<Rightarrow> string \<Rightarrow> user list \<Rightarrow> done_result \<times> user list" where
  "localVerify ev em pw s =
     (case findOne ev (ByEmail em) s of
        (Inl err, s1) \<Rightarrow> (DoneError err, s1)
      | (Inr None, s1) \<Rightarrow> (DoneFail ''Incorrect email.'', s1)
      | (Inr (Some u), s1) \<Rightarrow>
          (case verifyPassword ev u pw of
             Inl err \<Rightarrow> (DoneError err, s1)
           | Inr isMatch \<Rightarrow>
               if \<not> isMatch then (DoneFail ''Incorrect password.'', s1)
               else (DoneUser u, s1)))"

text \<open>
  JavaScript's \<^verbatim>\<open>a || b\<close> on a string that may be missing: \<^verbatim>\<open>undefined\<close>, \<^verbatim>\<open>null\<close> and the
  empty string are falsy.
\<close>

definition js_or :: "string option \<Rightarrow> string \<Rightarrow> string" where
  "js_or a b = (case a of None \<Rightarrow> b | Some x \<Rightarrow> if x = [] then b else x)"

text \<open>The object literals of lines 84 to 89 and 130 to 135.\<close>

definition googleFields :: "env \<Rightarrow> profile \<Rightarrow> user_fields" where
  "googleFields ev p =
     \<lparr>name = json_name (json p), email = json_email (json p),
      password = Some (generateRandomPassword ev),
      googleId = Some (profile_id p), githubId = None\<rparr>"

definition githubFields :: "env \<Rightarrow> profile \<Rightarrow> user_fields" where
  "githubFields ev p =
     \<lparr>name = displayName p,
      email = Some (js_or (json_email (json p)) ''unknown@example.com''),
      password = Some (generateRandomPassword ev),
      googleId = None, githubId = Some (profile_id p)\<rparr>"

text \<open>
  The Google strategy's callback (lines 78 to 95). The two tokens are parameters the body
  never reads.
\<close>

definition googleVerify ::
  "env \<Rightarrow> string \<Rightarrow> string \<Rightarrow> profile \<Rightarrow> user list \<Rightarrow> done_result \<times> user list" where
  "googleVerify ev accessToken refreshToken p s =
     (case findOne ev (ByGoogleId (profile_id p)) s of
        (Inl err, s1) \<Rightarrow> (DoneError err, s1)
      | (Inr (Some u), s1) \<Rightarrow> (DoneUser u, s1)
      | (Inr None, s1) \<Rightarrow>
          (case create ev (googleFields ev p) s1 of
             (Inl err, s2) \<Rightarrow> (DoneError err, s2)
           | (Inr u, s2) \<Rightarrow> (DoneUser u, s2)))"

text \<open>
  The GitHub strategy's callback (lines 123 to 141); the \<^verbatim>\<open>console.log\<close> of line 124 has no
  effect on the store or the result.
\<close>

definition githubVerify ::
  "env \<Rightarrow> string \<Rightarrow> string \<Rightarrow> profile \<Rightarrow> user list \<Rightarrow> done_result \<times> user list" where
  "githubVerify ev accessToken refreshToken p s =
     (case findOne ev (ByGithubId (profile_id p)) s of
        (Inl err, s1) \<Rightarrow> (DoneError err, s1)
      | (Inr (Some u), s1) \<Rightarrow> (DoneUser u, s1)
      | (Inr None, s1) \<Rightarrow>
          (case create ev (githubFields ev p) s1 of
             (Inl err, s2) \<Rightarrow> (DoneError err, s2)
           | (Inr u, s2) \<Rightarrow> (DoneUser u, s2)))"

text \<open>
  The federated flow of the specification, parameterised over the provider: the strategy
  registered under the provider's name runs.
\<close>

definition authenticateFederated ::
  "env \<Rightarrow> provider \<Rightarrow> string \<Rightarrow> string \<Rightarrow> profile \<Rightarrow> user list \<Rightarrow> done_result \<times> user list" where
  "authenticateFederated ev prov accessToken refreshToken p s =
     (case prov of
        Google \<Rightarrow> googleVerify ev accessToken refreshToken p s
      | GitHub \<Rightarrow> githubVerify ev accessToken refreshToken p s)"

text \<open>The filter, the stored identifier and the new fields each provider's callback uses.\<close>

definition providerQuery :: "provider \<Rightarrow> string \<Rightarrow> query" where
  "providerQuery prov i = (case prov of Google \<Rightarrow> ByGoogleId i | GitHub \<Rightarrow> ByGithubId i)"

definition providerId :: "provider \<Rightarrow> user \<Rightarrow> string option" where
  "providerId prov u = (case prov of Google \<Rightarrow> googleId u | GitHub \<Rightarrow> githubId u)"

definition providerFields :: "env \<Rightarrow> provider \<Rightarrow> profile \<Rightarrow> user_fields" where
  "providerFields ev prov p =
     (case prov of Google \<Rightarrow> googleFields ev p | GitHub \<Rightarrow> githubFields ev p)"

section \<open>Session identity\<close>

text \<open>\<^verbatim>\<open>serializeUser\<close> (lines 155 to 157): \<^verbatim>\<open>done(null, user.id)\<close>.\<close>

definition serializeUser :: "user \<Rightarrow> exn + objectId" where
  "serializeUser u = Inr (uid u)"

text \<open>
  \<^verbatim>\<open>deserializeUser\<close> (lines 170 to 177): \<^verbatim>\<open>done(null, user)\<close> with whatever the lookup
  returned, \<^verbatim>\<open>done(err)\<close> when it threw.
\<close>

definition deserializeUser :: "env \<Rightarrow> objectId \<Rightarrow> user list \<Rightarrow> (exn + user option) \<times> user list" where
  "deserializeUser ev i s =
     (case findById ev i s of
        (Inl err, s1) \<Rightarrow> (Inl err, s1)
      | (Inr u, s1) \<Rightarrow> (Inr u, s1))"

section \<open>The operations of the core\<close>

text \<open>
  The operations that reach the store, and the store each of them leaves.
  \<^verbatim>\<open>serializeUser\<close> never reaches the store.
\<close>

datatype operation =
    LocalLogin string string
  | FederatedLogin provider string string profile
  | ResolveSession objectId

definition storeAfter :: "env \<Rightarrow> operation \<Rightarrow> user list \<Rightarrow> user list" where
  "storeAfter ev opn s =
     (case opn of
        LocalLogin em pw \<Rightarrow> snd (localVerify ev em pw s)
      | FederatedLogin prov accessToken refreshToken p \<Rightarrow>
          snd (authenticateFederated ev prov accessToken refreshToken p s)
      | ResolveSession i \<Rightarrow> snd (deserializeUser ev i s))"

section \<open>Predicates of the specification\<close>

text \<open>Emails that are present are pairwise different (section 3).\<close>

definition unique_emails :: "user list \<Rightarrow> bool" where
  "unique_emails s = distinct (List.map_filter email s)"

text \<open>A record has a password credential or an external-provider identifier (section 3).\<close>

definition present :: "'a option \<Rightarrow> bool" where
  "present x = (case x of None \<Rightarrow> False | Some y \<Rightarrow> True)"

definition credential_or_provider :: "user \<Rightarrow> bool" where
  "credential_or_provider u =
     (present (password u) \<or> present (googleId u) \<or> present (githubId u))"

text \<open>Sample values for the closed instances below.\<close>

definition env0 :: env where
  "env0 = \<lparr>outage = (\<lambda>s r. None),
           verifyPassword = (\<lambda>u pw. Inr (password u = Some pw)),
           generateRandomPassword = ''k3Xw9q''\<rparr>"

definition alice :: user where
  "alice = \<lparr>name = Some ''Alice'', email = Some ''alice@example.com'',
            password = Some ''pw123'', googleId = None, githubId = None, uid = 1\<rparr>"

definition bob :: user where
  "bob = \<lparr>name = Some ''Bob'', email = Some ''unknown@example.com'',
          password = Some ''k3Xw9q'', googleId = None, githubId = Some ''gh-1'', uid = 2\<rparr>"

definition bobProfile :: profile where
  "bobProfile = \<lparr>profile_id = ''gh-1'', displayName = Some ''Bob'',
                 json = \<lparr>json_name = None, json_email = None\<rparr>\<rparr>"

definition bobRenamed :: profile where
  "bobRenamed = \<lparr>profile_id = ''gh-1'', displayName = Some ''Robert'',
                 json = \<lparr>json_name = Some ''Robert'', json_email = Some ''bob@example.com''\<rparr>\<rparr>"

definition envDown :: "exn \<Rightarrow> env" where
  "envDown err = env0\<lparr>outage := (\<lambda>s r. Some err)\<rparr>"

definition envNoCreate :: "exn \<Rightarrow> env" where
  "envNoCreate err =
     env0\<lparr>outage := (\<lambda>s r. case r of Create f \<Rightarrow> Some err | _ \<Rightarrow> None)\<rparr>"

definition envThrowingVerifier :: "exn \<Rightarrow> env" where
  "envThrowingVerifier err = env0\<lparr>verifyPassword := (\<lambda>u pw. Inl err)\<rparr>"

section \<open>Facts about the store\<close>

lemma fold_max_upper: "x \<in> set xs \<Longrightarrow> x \<le> fold max xs (a::nat)"
proof (induction xs arbitrary: a)
  case Nil
  then show ?case by simp
next
  case (Cons y ys)
  have mono: "b \<le> fold max ys b" for b :: nat
    by (induction ys arbitrary: b) (auto intro: order_trans [OF max.cobounded2])
  show ?case
  proof (cases "x = y")
    case True
    have "x \<le> max y a" using True by simp
    also have "\<dots> \<le> fold max ys (max y a)" by (rule mono)
    finally show ?thesis by simp
  next
    case False
    with Cons.prems have "x \<in> set ys" by simp
    then show ?thesis using Cons.IH by simp
  qed
qed

lemma fresh_id_new: "fresh_id s \<notin> uid ` set s"
proof
  assume "fresh_id s \<in> uid ` set s"
  then have "fresh_id s \<in> set (map uid s)" by simp
  then have "fresh_id s \<le> fold max (map uid s) 0" by (rule fold_max_upper)
  then show False by (simp add: fresh_id_def)
qed

lemma find_unique_email:
  "unique_emails s \<Longrightarrow> u \<in> set s \<Longrightarrow> email u = Some em \<Longrightarrow>
   find (matches (ByEmail em)) s = Some u"
proof (induction s)
  case Nil
  then show ?case by simp
next
  case (Cons v vs)
  show ?case
  proof (cases "email v = Some em")
    case True
    show ?thesis
    proof (cases "u = v")
      case True
      then show ?thesis using Cons.prems by simp
    next
      case False
      with Cons.prems have "u \<in> set vs" by simp
      then have "em \<in> set (List.map_filter email vs)"
        using Cons.prems(3) by (force simp: List.map_filter_def)
      then have False
        using Cons.prems(1) True by (simp add: unique_emails_def List.map_filter_def)
      then show ?thesis ..
    qed
  next
    case False
    then have "u \<noteq> v" using Cons.prems by auto
    then have "u \<in> set vs" using Cons.prems by simp
    moreover have "unique_emails vs"
      using Cons.prems(1) by (auto simp: unique_emails_def List.map_filter_def split: if_splits)
    ultimately show ?thesis using Cons.IH Cons.prems(3) False by simp
  qed
qed

lemma find_provider:
  "find (matches (providerQuery prov i)) s = None \<longleftrightarrow> (\<forall>u \<in> set s. providerId prov u \<noteq> Some i)"
  by (cases prov) (auto simp: providerQuery_def providerId_def find_None_iff)

section \<open>Facts about the callbacks\<close>

lemma localVerify_snd: "snd (localVerify ev em pw s) = s"
  by (simp add: localVerify_def findOne_def split: option.split sum.split)

lemma deserializeUser_snd: "snd (deserializeUser ev i s) = s"
  by (simp add: deserializeUser_def findById_def split: option.split)

lemma federated_found:
  "outage ev s (FindOne (providerQuery prov (profile_id p))) = None \<Longrightarrow>
   find (matches (providerQuery prov (profile_id p))) s = Some u \<Longrightarrow>
   authenticateFederated ev prov a r p s = (DoneUser u, s)"
  by (cases prov)
     (simp_all add: authenticateFederated_def googleVerify_def githubVerify_def findOne_def
        providerQuery_def)

lemma federated_absent:
  "outage ev s (FindOne (providerQuery prov (profile_id p))) = None \<Longrightarrow>
   find (matches (providerQuery prov (profile_id p))) s = None \<Longrightarrow>
   authenticateFederated ev prov a r p s =
     (case create ev (providerFields ev prov p) s of
        (Inl err, s2) \<Rightarrow> (DoneError err, s2)
      | (Inr u, s2) \<Rightarrow> (DoneUser u, s2))"
  by (cases prov)
     (simp_all add: authenticateFederated_def googleVerify_def githubVerify_def findOne_def
        providerQuery_def providerFields_def)

lemma federated_outage:
  "outage ev s (FindOne (providerQuery prov (profile_id p))) = Some err \<Longrightarrow>
   authenticateFederated ev prov a r p s = (DoneError err, s)"
  by (cases prov)
     (simp_all add: authenticateFederated_def googleVerify_def githubVerify_def findOne_def
        providerQuery_def)

lemma federated_snd:
  "snd (authenticateFederated ev prov a r p s) = s \<or>
   snd (authenticateFederated ev prov a r p s) =
     s @ [new_document (providerFields ev prov p) (fresh_id s)]"
  by (cases prov)
     (simp_all add: authenticateFederated_def googleVerify_def githubVerify_def findOne_def
        create_def providerFields_def Let_def split: option.split)

section \<open>Local login\<close>

text \<open>
  C1: let \<open>u\<close> be a record of the store whose email is \<open>em\<close>, in a store whose emails are
  unique (the invariant of section 3) and that serves the lookup. When the submitted password
  verifies against \<open>u\<close>, the local callback succeeds with \<open>u\<close>; when it does not verify, the
  callback fails with \<open>InvalidCredentials\<close> (the message "Incorrect password.").
\<close>

theorem localVerify_registered:
  assumes "u \<in> set s" and "email u = Some em" and "unique_emails s"
    and "outage ev s (FindOne (ByEmail em)) = None"
  shows "(verifyPassword ev u pw = Inr True \<longrightarrow> localVerify ev em pw s = (DoneUser u, s)) \<and>
         (verifyPassword ev u pw = Inr False \<longrightarrow>
            localVerify ev em pw s = (InvalidCredentials, s))"
proof -
  have "find (matches (ByEmail em)) s = Some u"
    using assms(3) assms(1) assms(2) by (rule find_unique_email)
  then show ?thesis
    using assms(4) by (simp add: localVerify_def findOne_def InvalidCredentials_def)
qed

text \<open>The scenario of section 8: alice logs in with \<^verbatim>\<open>pw123\<close>, then with \<^verbatim>\<open>wrong\<close>.\<close>

theorem localVerify_registered_witness:
  "localVerify env0 ''alice@example.com'' ''pw123'' [alice, bob] = (DoneUser alice, [alice, bob]) \<and>
   localVerify env0 ''alice@example.com'' ''wrong'' [alice, bob] = (InvalidCredentials, [alice, bob])"
proof -
  have m: "alice \<in> set [alice, bob]" by simp
  have e: "email alice = Some ''alice@example.com''" by (simp add: alice_def)
  have q: "unique_emails [alice, bob]"
    by (simp add: unique_emails_def List.map_filter_def alice_def bob_def)
  have o: "outage env0 [alice, bob] (FindOne (ByEmail ''alice@example.com'')) = None"
    by (simp add: env0_def)
  have "verifyPassword env0 alice ''pw123'' = Inr True"
    by (simp add: env0_def alice_def)
  moreover have "verifyPassword env0 alice ''wrong'' = Inr False"
    by (simp add: env0_def alice_def)
  ultimately show ?thesis
    using localVerify_registered [OF m e q o, of "''pw123''"]
      localVerify_registered [OF m e q o, of "''wrong''"]
    by simp
qed

text \<open>
  C2: when no record of the store has the email \<open>em\<close> and the store serves the lookup, the
  local callback fails with \<open>UserNotFound\<close> (the message "Incorrect email.") for every
  password, and the credential verifier plays no part: the outcome is the same under any
  verifier \<open>vp\<close>, also one that throws on every call.
\<close>

theorem localVerify_unknown_email:
  assumes "\<forall>u \<in> set s. email u \<noteq> Some em"
    and "outage ev s (FindOne (ByEmail em)) = None"
  shows "localVerify ev em pw s = (UserNotFound, s) \<and>
         localVerify (ev\<lparr>verifyPassword := vp\<rparr>) em pw s = (UserNotFound, s)"
proof -
  have "find (matches (ByEmail em)) s = None"
    using assms(1) by (auto simp: find_None_iff)
  then show ?thesis
    using assms(2) by (simp add: localVerify_def findOne_def UserNotFound_def)
qed

theorem localVerify_unknown_email_witness:
  "localVerify env0 ''bob@example.com'' ''x'' [alice] = (UserNotFound, [alice]) \<and>
   localVerify (env0\<lparr>verifyPassword := (\<lambda>u pw. Inl ''bcrypt failure'')\<rparr>)
     ''bob@example.com'' ''x'' [alice] = (UserNotFound, [alice])"
proof -
  have a: "\<forall>u \<in> set [alice]. email u \<noteq> Some ''bob@example.com''"
    by (simp add: alice_def)
  have o: "outage env0 [alice] (FindOne (ByEmail ''bob@example.com'')) = None"
    by (simp add: env0_def)
  show ?thesis
    by (rule localVerify_unknown_email [OF a o])
qed

text \<open>
  C10: whatever the email and the password, and whatever the store and the verifier answer,
  the local callback returns the store as it received it: it creates, updates and deletes
  nothing on the success path and on every failure path.
\<close>

theorem localVerify_store_unchanged: "snd (localVerify ev em pw s) = s"
  by (simp add: localVerify_def findOne_def split: option.split sum.split)

section \<open>Federated login\<close>

text \<open>
  C3: when a record of the store carries the provider identifier of the profile and the
  store serves the lookup, the federated callback succeeds with a record \<open>v\<close> of the store
  that carries this identifier and leaves the store as it was; a second call with the same
  provider identifier (other tokens, another profile, another random value) on the store
  the first call left returns the same record \<open>v\<close>, hence the same internal identifier, and
  again the same store: no second record is created.
\<close>

theorem authenticateFederated_idempotent:
  assumes "u \<in> set s" and "providerId prov u = Some (profile_id p)"
    and "profile_id p' = profile_id p"
    and "outage ev s (FindOne (providerQuery prov (profile_id p))) = None"
    and "outage ev' s (FindOne (providerQuery prov (profile_id p))) = None"
  shows "\<exists>v \<in> set s. providerId prov v = Some (profile_id p) \<and>
           authenticateFederated ev prov a r p s = (DoneUser v, s) \<and>
           authenticateFederated ev' prov a' r' p'
             (snd (authenticateFederated ev prov a r p s)) = (DoneUser v, s)"
proof -
  have "find (matches (providerQuery prov (profile_id p))) s \<noteq> None"
    using assms(1,2) by (auto simp: find_provider)
  then obtain v where v: "find (matches (providerQuery prov (profile_id p))) s = Some v"
    by auto
  then have "v \<in> set s" and "matches (providerQuery prov (profile_id p)) v"
    by (auto simp: find_Some_iff)
  then have "v \<in> set s" and "providerId prov v = Some (profile_id p)"
    by (cases prov; simp add: providerQuery_def providerId_def)+
  moreover have "authenticateFederated ev prov a r p s = (DoneUser v, s)"
    using assms(4) v by (rule federated_found)
  moreover have "authenticateFederated ev' prov a' r' p' s = (DoneUser v, s)"
    using assms(5) v federated_found [of ev' s prov p' v] assms(3) by simp
  ultimately show ?thesis by auto
qed

theorem authenticateFederated_idempotent_witness:
  "\<exists>v \<in> set [alice, bob]. providerId GitHub v = Some (profile_id bobProfile) \<and>
      authenticateFederated env0 GitHub ''t1'' ''r1'' bobProfile [alice, bob] =
        (DoneUser v, [alice, bob]) \<and>
      authenticateFederated env0 GitHub ''t2'' ''r2'' bobRenamed
        (snd (authenticateFederated env0 GitHub ''t1'' ''r1'' bobProfile [alice, bob])) =
        (DoneUser v, [alice, bob])"
proof -
  have m: "bob \<in> set [alice, bob]" by simp
  have i: "providerId GitHub bob = Some (profile_id bobProfile)"
    by (simp add: providerId_def bob_def bobProfile_def)
  have j: "profile_id bobRenamed = profile_id bobProfile"
    by (simp add: bobRenamed_def bobProfile_def)
  have o: "outage env0 [alice, bob] (FindOne (providerQuery GitHub (profile_id bobProfile))) = None"
    by (simp add: env0_def)
  show ?thesis
    by (rule authenticateFederated_idempotent [OF m i j o o])
qed

text \<open>
  C4: when no record of the store carries the provider identifier of the profile and the
  store serves the lookup and the creation, the federated callback succeeds with a record
  \<open>v\<close> and the store it leaves is the old store followed by \<open>v\<close> alone. The identifier of
  \<open>v\<close> is new, its provider identifier is the profile's, its name is \<^verbatim>\<open>profile._json.name\<close>
  for Google and \<^verbatim>\<open>profile.displayName\<close> for GitHub, its email is \<^verbatim>\<open>profile._json.email\<close>
  for Google and, for GitHub, \<^verbatim>\<open>profile._json.email\<close> when that is a non-empty string and
  the placeholder \<^verbatim>\<open>unknown@example.com\<close> otherwise.
\<close>

theorem authenticateFederated_creates:
  assumes "\<forall>u \<in> set s. providerId prov u \<noteq> Some (profile_id p)"
    and "outage ev s (FindOne (providerQuery prov (profile_id p))) = None"
    and "outage ev s (Create (providerFields ev prov p)) = None"
  shows "\<exists>v. authenticateFederated ev prov a r p s = (DoneUser v, s @ [v]) \<and>
           uid v \<notin> uid ` set s \<and>
           providerId prov v = Some (profile_id p) \<and>
           name v = (case prov of Google \<Rightarrow> json_name (json p) | GitHub \<Rightarrow> displayName p) \<and>
           email v =
             (case prov of
                Google \<Rightarrow> json_email (json p)
              | GitHub \<Rightarrow>
                  (case json_email (json p) of
                     None \<Rightarrow> Some ''unknown@example.com''
                   | Some e \<Rightarrow> if e = [] then Some ''unknown@example.com'' else Some e))"
proof -
  let ?v = "new_document (providerFields ev prov p) (fresh_id s)"
  have "find (matches (providerQuery prov (profile_id p))) s = None"
    using assms(1) by (simp add: find_provider)
  with assms(2) have "authenticateFederated ev prov a r p s =
     (case create ev (providerFields ev prov p) s of
        (Inl err, s2) \<Rightarrow> (DoneError err, s2)
      | (Inr u, s2) \<Rightarrow> (DoneUser u, s2))"
    by (rule federated_absent)
  then have "authenticateFederated ev prov a r p s = (DoneUser ?v, s @ [?v])"
    using assms(3) by (simp add: create_def Let_def)
  moreover have "uid ?v \<notin> uid ` set s"
    using fresh_id_new [of s] by (simp add: new_document_def)
  moreover have "providerId prov ?v = Some (profile_id p)"
    by (cases prov)
       (simp_all add: providerId_def new_document_def providerFields_def googleFields_def
          githubFields_def)
  moreover have "name ?v = (case prov of Google \<Rightarrow> json_name (json p) | GitHub \<Rightarrow> displayName p)"
    by (cases prov)
       (simp_all add: new_document_def providerFields_def googleFields_def githubFields_def)
  moreover have "email ?v =
             (case prov of
                Google \<Rightarrow> json_email (json p)
              | GitHub \<Rightarrow>
                  (case json_email (json p) of
                     None \<Rightarrow> Some ''unknown@example.com''
                   | Some e \<Rightarrow> if e = [] then Some ''unknown@example.com'' else Some e))"
    by (cases prov)
       (simp_all add: new_document_def providerFields_def googleFields_def githubFields_def
          js_or_def split: option.split)
  ultimately show ?thesis by blast
qed

text \<open>The scenario of section 8: a first GitHub login as \<^verbatim>\<open>gh-1\<close>, named Bob, without email.\<close>

theorem authenticateFederated_creates_witness:
  "\<exists>v. authenticateFederated env0 GitHub ''t1'' ''r1'' bobProfile [alice] =
          (DoneUser v, [alice] @ [v]) \<and>
        uid v \<notin> uid ` set [alice] \<and>
        providerId GitHub v = Some ''gh-1'' \<and>
        name v = Some ''Bob'' \<and>
        email v = Some ''unknown@example.com''"
proof -
  have a: "\<forall>u \<in> set [alice]. providerId GitHub u \<noteq> Some (profile_id bobProfile)"
    by (simp add: providerId_def alice_def)
  have o: "outage env0 [alice] (FindOne (providerQuery GitHub (profile_id bobProfile))) = None"
    by (simp add: env0_def)
  have c: "outage env0 [alice] (Create (providerFields env0 GitHub bobProfile)) = None"
    by (simp add: env0_def)
  show ?thesis
    using authenticateFederated_creates [OF a o c, of "''t1''" "''r1''"]
    by (simp add: bobProfile_def)
qed

text \<open>
  C7: when the lookup by provider identifier finds the record \<open>u\<close>, the federated callback
  succeeds with \<open>u\<close> as it is stored and returns the store as it received it, whatever name
  and email the profile carries: no field of any record is refreshed.
\<close>

theorem authenticateFederated_found_unchanged:
  assumes "find (matches (providerQuery prov (profile_id p))) s = Some u"
    and "outage ev s (FindOne (providerQuery prov (profile_id p))) = None"
  shows "authenticateFederated ev prov a r p s = (DoneUser u, s)"
  using assms(2) assms(1) by (rule federated_found)

text \<open>Bob comes back under another display name and with an email: his record stays.\<close>

theorem authenticateFederated_found_unchanged_witness:
  "authenticateFederated env0 GitHub ''t2'' ''r2'' bobRenamed [alice, bob] =
     (DoneUser bob, [alice, bob])"
proof -
  have f: "find (matches (providerQuery GitHub (profile_id bobRenamed))) [alice, bob] = Some bob"
    by (simp add: providerQuery_def bobRenamed_def alice_def bob_def)
  have o: "outage env0 [alice, bob] (FindOne (providerQuery GitHub (profile_id bobRenamed))) = None"
    by (simp add: env0_def)
  show ?thesis
    by (rule authenticateFederated_found_unchanged [OF f o])
qed

section \<open>Session identity\<close>

text \<open>
  C5: when \<^verbatim>\<open>deserializeUser\<close> resolves the identifier \<open>i\<close> to a user record,
  \<^verbatim>\<open>serializeUser\<close> of that record yields \<open>i\<close> again.
\<close>

theorem session_identity_round_trip:
  assumes "fst (deserializeUser ev i s) = Inr (Some u)"
  shows "serializeUser u = Inr i"
proof -
  have "find (\<lambda>u. uid u = i) s = Some u"
    using assms
    by (simp add: deserializeUser_def findById_def split: option.splits)
  then have "uid u = i" by (auto simp: find_Some_iff)
  then show ?thesis by (simp add: serializeUser_def)
qed

theorem session_identity_round_trip_witness:
  "fst (deserializeUser env0 2 [alice, bob]) = Inr (Some bob) \<and> serializeUser bob = Inr 2"
proof -
  have d: "fst (deserializeUser env0 2 [alice, bob]) = Inr (Some bob)"
    by (simp add: deserializeUser_def findById_def env0_def alice_def bob_def)
  show ?thesis
    using d session_identity_round_trip [OF d] by simp
qed

text \<open>
  C6, as amended: for an identifier no record of the store has, \<^verbatim>\<open>deserializeUser\<close> reports
  no failure of its own. When the store serves the lookup it calls \<^verbatim>\<open>done(null, null)\<close>: no
  error and no user, the answer by which Passport's session layer learns that the user is
  gone. When the store throws, what it throws reaches \<^verbatim>\<open>done\<close> as the error. In both cases
  the store stays as it was, and in neither is a user record handed over.
\<close>

theorem deserializeUser_absent:
  assumes "\<forall>u \<in> set s. uid u \<noteq> i"
  shows "(outage ev s (FindById i) = None \<longrightarrow> deserializeUser ev i s = (Inr None, s)) \<and>
         (outage ev s (FindById i) = Some err \<longrightarrow> deserializeUser ev i s = (Inl err, s))"
proof -
  have "find (\<lambda>u. uid u = i) s = None"
    using assms by (auto simp: find_None_iff)
  then show ?thesis
    by (simp add: deserializeUser_def findById_def)
qed

theorem deserializeUser_absent_witness:
  "deserializeUser env0 7 [alice, bob] = (Inr None, [alice, bob]) \<and>
   deserializeUser (envDown ''ECONNREFUSED'') 7 [alice, bob] =
     (Inl ''ECONNREFUSED'', [alice, bob])"
proof -
  have a: "\<forall>u \<in> set [alice, bob]. uid u \<noteq> 7"
    by (simp add: alice_def bob_def)
  have o: "outage env0 [alice, bob] (FindById 7) = None"
    by (simp add: env0_def)
  have d: "outage (envDown ''ECONNREFUSED'') [alice, bob] (FindById 7) = Some ''ECONNREFUSED''"
    by (simp add: envDown_def env0_def)
  show ?thesis
    using o d deserializeUser_absent [OF a, of env0 "''ECONNREFUSED''"]
      deserializeUser_absent [OF a, of "envDown ''ECONNREFUSED''" "''ECONNREFUSED''"]
    by simp
qed

text \<open>
  The claim as first stated asks for a \<open>UserNotFound\<close> failure and excludes a success that
  carries no user. On the identifier 7, absent from a store that holds alice alone and
  serves the lookup, the callback hands \<^verbatim>\<open>done\<close> no error and no user.
\<close>

theorem deserializeUser_absent_id_counterexample:
  "fst (deserializeUser env0 7 [alice]) = Inr None"
  by (simp add: deserializeUser_def findById_def env0_def alice_def)

section \<open>Failures of the store\<close>

text \<open>
  C8: in every flow, what the store throws reaches \<^verbatim>\<open>done\<close> as the error, unchanged, and
  the store stays as it was: the lookup of the local callback, the lookup and the creation
  of the federated callback, the lookup of \<^verbatim>\<open>deserializeUser\<close>. The same \<^verbatim>\<open>catch\<close> branch of
  the local callback passes on what the verifier throws.
\<close>

theorem store_failure_surfaced:
  "(outage ev s (FindOne (ByEmail em)) = Some err \<longrightarrow>
      localVerify ev em pw s = (StoreError err, s)) \<and>
   (outage ev s (FindOne (providerQuery prov (profile_id p))) = Some err \<longrightarrow>
      authenticateFederated ev prov a r p s = (StoreError err, s)) \<and>
   (outage ev s (FindOne (providerQuery prov (profile_id p))) = None \<and>
    find (matches (providerQuery prov (profile_id p))) s = None \<and>
    outage ev s (Create (providerFields ev prov p)) = Some err \<longrightarrow>
      authenticateFederated ev prov a r p s = (StoreError err, s)) \<and>
   (outage ev s (FindById i) = Some err \<longrightarrow> deserializeUser ev i s = (Inl err, s)) \<and>
   (outage ev s (FindOne (ByEmail em)) = None \<and>
    find (matches (ByEmail em)) s = Some u \<and> verifyPassword ev u pw = Inl err \<longrightarrow>
      localVerify ev em pw s = (DoneError err, s))"
proof (intro conjI impI)
  assume "outage ev s (FindOne (ByEmail em)) = Some err"
  then show "localVerify ev em pw s = (StoreError err, s)"
    by (simp add: localVerify_def findOne_def StoreError_def)
next
  assume "outage ev s (FindOne (providerQuery prov (profile_id p))) = Some err"
  then show "authenticateFederated ev prov a r p s = (StoreError err, s)"
    by (simp add: federated_outage StoreError_def)
next
  assume h: "outage ev s (FindOne (providerQuery prov (profile_id p))) = None \<and>
    find (matches (providerQuery prov (profile_id p))) s = None \<and>
    outage ev s (Create (providerFields ev prov p)) = Some err"
  then show "authenticateFederated ev prov a r p s = (StoreError err, s)"
    by (simp add: federated_absent create_def StoreError_def)
next
  assume "outage ev s (FindById i) = Some err"
  then show "deserializeUser ev i s = (Inl err, s)"
    by (simp add: deserializeUser_def findById_def)
next
  assume "outage ev s (FindOne (ByEmail em)) = None \<and>
    find (matches (ByEmail em)) s = Some u \<and> verifyPassword ev u pw = Inl err"
  then show "localVerify ev em pw s = (DoneError err, s)"
    by (simp add: localVerify_def findOne_def)
qed

theorem store_failure_surfaced_witness:
  "localVerify (envDown ''ECONNREFUSED'') ''alice@example.com'' ''pw123'' [alice] =
     (StoreError ''ECONNREFUSED'', [alice]) \<and>
   authenticateFederated (envDown ''ECONNREFUSED'') Google ''t1'' ''r1'' bobProfile [alice] =
     (StoreError ''ECONNREFUSED'', [alice]) \<and>
   authenticateFederated (envNoCreate ''E11000'') GitHub ''t1'' ''r1'' bobProfile [alice] =
     (StoreError ''E11000'', [alice]) \<and>
   deserializeUser (envDown ''ECONNREFUSED'') 1 [alice] = (Inl ''ECONNREFUSED'', [alice]) \<and>
   localVerify (envThrowingVerifier ''bad hash'') ''alice@example.com'' ''pw123'' [alice] =
     (DoneError ''bad hash'', [alice])"
proof -
  have d: "outage (envDown ''ECONNREFUSED'') [alice] rq = Some ''ECONNREFUSED''" for rq
    by (simp add: envDown_def env0_def)
  have c: "outage (envNoCreate ''E11000'') [alice]
             (FindOne (providerQuery GitHub (profile_id bobProfile))) = None \<and>
           find (matches (providerQuery GitHub (profile_id bobProfile))) [alice] = None \<and>
           outage (envNoCreate ''E11000'') [alice]
             (Create (providerFields (envNoCreate ''E11000'') GitHub bobProfile)) = Some ''E11000''"
    by (simp add: envNoCreate_def env0_def providerQuery_def alice_def)
  have v: "outage (envThrowingVerifier ''bad hash'') [alice]
             (FindOne (ByEmail ''alice@example.com'')) = None \<and>
           find (matches (ByEmail ''alice@example.com'')) [alice] = Some alice \<and>
           verifyPassword (envThrowingVerifier ''bad hash'') alice ''pw123'' = Inl ''bad hash''"
    by (simp add: envThrowingVerifier_def env0_def alice_def)
  show ?thesis
    using d c v
      store_failure_surfaced [of "envDown ''ECONNREFUSED''" "[alice]" "''alice@example.com''"
        "''ECONNREFUSED''" "''pw123''" Google bobProfile "''t1''" "''r1''" 1 alice]
      store_failure_surfaced [of "envNoCreate ''E11000''" "[alice]" "''alice@example.com''"
        "''E11000''" "''pw123''" GitHub bobProfile "''t1''" "''r1''" 1 alice]
      store_failure_surfaced [of "envThrowingVerifier ''bad hash''" "[alice]"
        "''alice@example.com''" "''bad hash''" "''pw123''" GitHub bobProfile "''t1''" "''r1''" 1 alice]
    by simp
qed

section \<open>The invariant of created records\<close>

text \<open>
  C9: every record that is in the store after an operation of the core and was not there
  before has a password credential or a provider identifier; more precisely it has both:
  its password is the value the random generator gave and one of its two provider
  identifiers is set. Only the federated callbacks add records.
\<close>

theorem created_records_invariant:
  "\<forall>v \<in> set (storeAfter ev opn s) - set s.
      credential_or_provider v \<and>
      password v = Some (generateRandomPassword ev) \<and>
      (present (googleId v) \<or> present (githubId v))"
proof (cases opn)
  case (LocalLogin em pw)
  then show ?thesis by (simp add: storeAfter_def localVerify_snd)
next
  case (FederatedLogin prov a r p)
  have n: "password (new_document (providerFields ev prov p) (fresh_id s)) =
             Some (generateRandomPassword ev) \<and>
           (present (googleId (new_document (providerFields ev prov p) (fresh_id s))) \<or>
            present (githubId (new_document (providerFields ev prov p) (fresh_id s))))"
    by (cases prov)
       (simp_all add: new_document_def providerFields_def googleFields_def githubFields_def
          present_def)
  show ?thesis
    using federated_snd [of ev prov a r p s] n
    by (auto simp: storeAfter_def FederatedLogin credential_or_provider_def present_def)
next
  case (ResolveSession i)
  then show ?thesis by (simp add: storeAfter_def deserializeUser_snd)
qed

theorem created_records_invariant_witness:
  "bob \<in> set (storeAfter env0 (FederatedLogin GitHub ''t1'' ''r1'' bobProfile) [alice]) - set [alice] \<and>
   credential_or_provider bob \<and> password bob = Some (generateRandomPassword env0) \<and>
   (present (googleId bob) \<or> present (githubId bob))"
proof -
  have m: "bob \<in> set (storeAfter env0 (FederatedLogin GitHub ''t1'' ''r1'' bobProfile) [alice])
             - set [alice]"
    by (simp add: storeAfter_def authenticateFederated_def githubVerify_def findOne_def
          create_def githubFields_def new_document_def fresh_id_def js_or_def env0_def
          alice_def bob_def bobProfile_def Let_def eval_nat_numeral)
  show ?thesis
    using m created_records_invariant [of env0 "FederatedLogin GitHub ''t1'' ''r1'' bobProfile" "[alice]"]
    by blast
qed

end
